theory Spec2Isabelle
  imports Main "HOL-Library.Word" "HOL-Library.Sublist"
begin

section \<open>Values of the JavaScript runtime\<close>

text \<open>
  A JavaScript string is a sequence of UTF-16 code units; \<^verbatim>\<open>length\<close> and
  \<^verbatim>\<open>slice\<close> count code units. String literals of \<^verbatim>\<open>App.js\<close> are ASCII and are
  written \<open>ascii ''...''\<close>.
\<close>

type_synonym js_string = "16 word list"

definition ascii :: "string \<Rightarrow> js_string" where
  "ascii s = map (\<lambda>c. word_of_nat (of_char c)) s"

text \<open>
  \<^verbatim>\<open>String.prototype.slice(start, end)\<close>: a negative index counts from the end, both
  indices are clamped to the string, and an empty string results when the range is empty.
\<close>

definition slice_js :: "int \<Rightarrow> int \<Rightarrow> js_string \<Rightarrow> js_string" where
  "slice_js start stop s =
     (let len = int (length s);
          lo = (if start < 0 then max (len + start) 0 else min start len);
          hi = (if stop < 0 then max (len + stop) 0 else min stop len)
      in if lo \<ge> hi then [] else take (nat (hi - lo)) (drop (nat lo) s))"

text \<open>Truthiness of a string (\<^verbatim>\<open>if (carNumber)\<close>): only the empty string is falsy.\<close>

definition truthy :: "js_string \<Rightarrow> bool" where
  "truthy s = (s \<noteq> [])"

text \<open>
  Truthiness of \<^verbatim>\<open>image\<close>, which holds \<^verbatim>\<open>null\<close> or a URI string
  (\<^verbatim>\<open>if (!image)\<close>): \<^verbatim>\<open>null\<close> and the empty string are falsy.
\<close>

fun truthy_opt :: "js_string option \<Rightarrow> bool" where
  "truthy_opt None = False"
| "truthy_opt (Some s) = truthy s"

text \<open>
  A \<^verbatim>\<open>Date\<close>, by its fields in UTC (the month counted from 1), and
  \<^verbatim>\<open>Date.prototype.toISOString\<close> as the language standard defines it: the format
  \<^verbatim>\<open>YYYY-MM-DDTHH:mm:ss.sssZ\<close>, with a signed six-digit year outside 0..9999. \<open>pad k n\<close>
  is the decimal numeral of \<open>n\<close> in \<open>k\<close> digits.
\<close>

record date =
  year :: int
  month :: nat
  day :: nat
  hours :: nat
  minutes :: nat
  seconds :: nat
  milliseconds :: nat

definition digit :: "nat \<Rightarrow> 16 word" where
  "digit n = word_of_nat (48 + n mod 10)"

fun pad :: "nat \<Rightarrow> nat \<Rightarrow> js_string" where
  "pad 0 n = []"
| "pad (Suc k) n = pad k (n div 10) @ [digit n]"

definition toISOString :: "date \<Rightarrow> js_string" where
  "toISOString d =
     (if 0 \<le> year d \<and> year d \<le> 9999 then pad 4 (nat (year d))
      else (if year d < 0 then ascii ''-'' else ascii ''+'') @ pad 6 (nat \<bar>year d\<bar>))
     @ ascii ''-'' @ pad 2 (month d) @ ascii ''-'' @ pad 2 (day d)
     @ ascii ''T'' @ pad 2 (hours d) @ ascii '':'' @ pad 2 (minutes d)
     @ ascii '':'' @ pad 2 (seconds d) @ ascii ''.'' @ pad 3 (milliseconds d) @ ascii ''Z''"

text \<open>
  The one exception that leaves a handler: every other \<^verbatim>\<open>throw\<close> and rejected
  \<^verbatim>\<open>await\<close> sits in a \<^verbatim>\<open>try\<close> whose \<^verbatim>\<open>catch\<close> block is a branch of the handler.
\<close>

datatype js_error = SyntaxError

text \<open>An awaited promise either rejects (the \<^verbatim>\<open>await\<close> throws) or fulfils with a value.\<close>

datatype 'a settled = Rejected | Fulfilled 'a

text \<open>
  The response of \<^verbatim>\<open>fetch\<close>: its status code and the outcome of \<^verbatim>\<open>response.json()\<close>
  (rejected when the body is not JSON text). \<^verbatim>\<open>response.ok\<close> is, by the Fetch standard,
  true exactly for a status in 200..299.
\<close>

record 'b response =
  status :: nat
  json :: "'b settled"

definition ok :: "'b response \<Rightarrow> bool" where
  "ok r = (200 \<le> status r \<and> status r \<le> 299)"

text \<open>
  What \<^verbatim>\<open>fetch\<close> is called with. A \<^verbatim>\<open>FormData\<close> body is the list of its appended
  parts; \<open>Json fields\<close> stands for \<^verbatim>\<open>JSON.stringify\<close> of an object literal with these
  string-valued fields, in this order.
\<close>

datatype form_value =
    File js_string js_string js_string  \<comment> \<open>\<^verbatim>\<open>{uri, type, name}\<close>\<close>
  | Field js_string

datatype body =
    FormData "(js_string \<times> form_value) list"
  | Json "(js_string \<times> js_string) list"

record request =
  url :: js_string
  http_method :: js_string
  headers :: "(js_string \<times> js_string) list"
  body :: body

text \<open>
  The effects of a handler, in program order. A console effect keeps the label (the first
  argument of the call). \<open>Uncaught e\<close> records that the exception \<open>e\<close> left a handler.
\<close>

datatype effect =
    Alert js_string js_string  \<comment> \<open>\<^verbatim>\<open>Alert.alert(title, message)\<close>\<close>
  | Fetch request
  | ConsoleLog js_string
  | ConsoleError js_string
  | Uncaught js_error

definition SERVER_URL :: js_string where
  "SERVER_URL = ascii ''http://192.168.1.108:8000''"

section \<open>Component state\<close>

text \<open>
  The three \<^verbatim>\<open>useState\<close> cells of \<^verbatim>\<open>App\<close> (lines 23-25); \<open>image_uri\<close> is the cell
  \<^verbatim>\<open>image\<close> (a local \<open>uri\<close> or \<open>car\<close> is the value read from a cell). An entry of
  \<open>messages\<close> is whatever \<^verbatim>\<open>JSON.parse\<close> returned for a frame; no handler inspects it,
  so its type is a parameter.
\<close>

record 'v app_state =
  messages :: "'v list"
  carNumber :: js_string
  image_uri :: "js_string option"

definition initial :: "'v app_state" where
  "initial = \<lparr>messages = [], carNumber = [], image_uri = None\<rparr>"

text \<open>The state setters; \<^verbatim>\<open>setMessages\<close> is only ever called with an updater function.\<close>

definition setMessages :: "('v list \<Rightarrow> 'v list) \<Rightarrow> 'v app_state \<Rightarrow> 'v app_state" where
  "setMessages f st = st\<lparr>messages := f (messages st)\<rparr>"

definition setCarNumber :: "js_string \<Rightarrow> 'v app_state \<Rightarrow> 'v app_state" where
  "setCarNumber c st = st\<lparr>carNumber := c\<rparr>"

definition setImage :: "js_string option \<Rightarrow> 'v app_state \<Rightarrow> 'v app_state" where
  "setImage i st = st\<lparr>image_uri := i\<rparr>"

section \<open>The handlers\<close>

text \<open>
  A handler is modelled from its call to the settlement of its last promise, with no
  other event in between: it takes the state of the render it was created in and returns
  the state after it, with the effects it performed in program order. What the outside
  world answers (a parsed frame, a settled promise, the clock) is an argument.
\<close>

subsection \<open>Start-up (lines 31-44)\<close>

text \<open>
  The permission request of the mount effect; the second status is awaited only after the
  first. It calls no setter.
\<close>

definition requestPermissions :: "js_string settled \<Rightarrow> js_string settled \<Rightarrow> effect list" where
  "requestPermissions camera media =
     (let caught = [ConsoleError (ascii ''Error requesting permissions:''),
                    Alert (ascii ''Error'') (ascii ''Failed to request permissions'')]
      in case camera of
           Rejected \<Rightarrow> caught
         | Fulfilled cameraStatus \<Rightarrow>
             (case media of
                Rejected \<Rightarrow> caught
              | Fulfilled mediaStatus \<Rightarrow>
                  if cameraStatus \<noteq> ascii ''granted'' \<or> mediaStatus \<noteq> ascii ''granted''
                  then [Alert (ascii ''Permission Required'')
                          (ascii ''Camera and media library permissions are required to use this app.'')]
                  else []))"

subsection \<open>The push channel (lines 49-65)\<close>

definition onopen :: "'v app_state \<Rightarrow> 'v app_state \<times> effect list" where
  "onopen st = (st, [ConsoleLog (ascii ''WebSocket Connected'')])"

text \<open>
  \<^verbatim>\<open>const data = JSON.parse(event.data); setMessages(prev => [...prev, data]);\<close>
  \<open>JSON_parse\<close> is the runtime's parser: \<open>None\<close> when it throws \<^verbatim>\<open>SyntaxError\<close>. The
  handler has no \<^verbatim>\<open>try\<close>, so the exception propagates: the result is \<open>Inl\<close>.
\<close>

definition onmessage ::
  "(js_string \<Rightarrow> 'v option) \<Rightarrow> js_string \<Rightarrow> 'v app_state \<Rightarrow> js_error + 'v app_state \<times> effect list"
where
  "onmessage JSON_parse event_data st =
     (case JSON_parse event_data of
        None \<Rightarrow> Inl SyntaxError
      | Some data \<Rightarrow> Inr (setMessages (\<lambda>prev. prev @ [data]) st, []))"

definition onerror :: "'v app_state \<Rightarrow> 'v app_state \<times> effect list" where
  "onerror st =
     (st, [ConsoleError (ascii ''WebSocket Error:''),
           Alert (ascii ''Connection Error'') (ascii ''Failed to connect to server'')])"

definition onclose :: "'v app_state \<Rightarrow> 'v app_state \<times> effect list" where
  "onclose st = (st, [ConsoleLog (ascii ''WebSocket Disconnected'')])"

subsection \<open>Staging (lines 74-123 and 247)\<close>

text \<open>
  The result of the picker: the \<^verbatim>\<open>canceled\<close> flag and the URIs of \<^verbatim>\<open>assets\<close>. Reading
  \<^verbatim>\<open>result.assets[0].uri\<close> of a result without assets throws \<^verbatim>\<open>TypeError\<close>, which the
  handler catches.
\<close>

record launch_result =
  canceled :: bool
  assets :: "js_string list"

definition pickImage ::
  "js_string settled \<Rightarrow> launch_result settled \<Rightarrow> 'v app_state \<Rightarrow> 'v app_state \<times> effect list"
where
  "pickImage permission launch st =
     (let caught = (st, [ConsoleError (ascii ''Error picking image:''),
                         Alert (ascii ''Error'') (ascii ''Failed to pick image. Please try again.'')])
      in case permission of
           Rejected \<Rightarrow> caught
         | Fulfilled granted \<Rightarrow>
             if granted \<noteq> ascii ''granted''
             then (st, [Alert (ascii ''Permission Required'')
                          (ascii ''Please grant media library permission to pick images'')])
             else (case launch of
                     Rejected \<Rightarrow> caught
                   | Fulfilled result \<Rightarrow>
                       if \<not> canceled result
                       then (case assets result of
                               [] \<Rightarrow> caught
                             | uri # _ \<Rightarrow>
                                 (setImage (Some uri) st,
                                  [ConsoleLog (ascii ''Image picked successfully:'')]))
                       else (st, [])))"

definition takePhoto ::
  "js_string settled \<Rightarrow> launch_result settled \<Rightarrow> 'v app_state \<Rightarrow> 'v app_state \<times> effect list"
where
  "takePhoto permission launch st =
     (let caught = (st, [ConsoleError (ascii ''Error taking photo:''),
                         Alert (ascii ''Error'') (ascii ''Failed to take photo. Please try again.'')])
      in case permission of
           Rejected \<Rightarrow> caught
         | Fulfilled granted \<Rightarrow>
             if granted \<noteq> ascii ''granted''
             then (st, [Alert (ascii ''Permission Required'')
                          (ascii ''Please grant camera permission to take photos'')])
             else (case launch of
                     Rejected \<Rightarrow> caught
                   | Fulfilled result \<Rightarrow>
                       if \<not> canceled result
                       then (case assets result of
                               [] \<Rightarrow> caught
                             | uri # _ \<Rightarrow>
                                 (setImage (Some uri) st,
                                  [ConsoleLog (ascii ''Photo taken successfully:'')]))
                       else (st, [])))"

text \<open>
  \<^verbatim>\<open>onChangeText={(text) => setCarNumber(text.slice(0, 8))}\<close> (line 247).
\<close>

definition onChangeText :: "js_string \<Rightarrow> 'v app_state \<Rightarrow> 'v app_state" where
  "onChangeText text st = setCarNumber (slice_js 0 8 text) st"

subsection \<open>\<^verbatim>\<open>uploadImage\<close> (lines 125-162)\<close>

text \<open>Lines 132-142: the form, with \<^verbatim>\<open>car_number\<close> appended only if it is truthy.\<close>

definition formData :: "js_string \<Rightarrow> js_string \<Rightarrow> (js_string \<times> form_value) list" where
  "formData uri car =
     [(ascii ''file'', File uri (ascii ''image/jpeg'') (ascii ''photo.jpg''))]
     @ (if truthy car then [(ascii ''car_number'', Field car)] else [])"

definition upload_request :: "js_string \<Rightarrow> js_string \<Rightarrow> request" where
  "upload_request uri car =
     \<lparr>url = SERVER_URL @ ascii ''/upload-image/'', http_method = ascii ''POST'', headers = [],
      body = FormData (formData uri car)\<rparr>"

definition uploadImage ::
  "'b response settled \<Rightarrow> 'v app_state \<Rightarrow> 'v app_state \<times> effect list"
where
  "uploadImage fetched st =
     (case image_uri st of
        None \<Rightarrow> (st, [Alert (ascii ''Error'') (ascii ''Please select an image first'')])
      | Some uri \<Rightarrow>
          if \<not> truthy uri
          then (st, [Alert (ascii ''Error'') (ascii ''Please select an image first'')])
          else
            let sent = [ConsoleLog (ascii ''Uploading image:''),
                        Fetch (upload_request uri (carNumber st))];
                caught = (st, sent @ [ConsoleError (ascii ''Error uploading image:''),
                                      Alert (ascii ''Error'')
                                        (ascii ''Failed to upload image. Please try again.'')])
            in (case fetched of
                  Rejected \<Rightarrow> caught  \<comment> \<open>\<^verbatim>\<open>await fetch(...)\<close> throws\<close>
                | Fulfilled response \<Rightarrow>
                    if \<not> ok response then caught  \<comment> \<open>\<^verbatim>\<open>throw new Error(...)\<close>\<close>
                    else (case json response of
                            Rejected \<Rightarrow> caught  \<comment> \<open>\<^verbatim>\<open>await response.json()\<close> throws\<close>
                          | Fulfilled data \<Rightarrow>
                              (setImage None st,
                               sent @ [ConsoleLog (ascii ''Upload successful:''),
                                       Alert (ascii ''Success'')
                                         (ascii ''Image uploaded successfully'')]))))"

subsection \<open>\<^verbatim>\<open>sendCarNumber\<close> (lines 164-193)\<close>

text \<open>Lines 171-181; \<open>now\<close> is \<^verbatim>\<open>new Date()\<close>, the reading of the clock at the call.\<close>

definition message_request :: "date \<Rightarrow> js_string \<Rightarrow> request" where
  "message_request now car =
     \<lparr>url = SERVER_URL @ ascii ''/messages/'', http_method = ascii ''POST'',
      headers = [(ascii ''Content-Type'', ascii ''application/json'')],
      body = Json [(ascii ''message'', ascii ''Car number submitted: '' @ car),
                   (ascii ''timestamp'', toISOString now),
                   (ascii ''car_number'', car)]\<rparr>"

definition sendCarNumber ::
  "date \<Rightarrow> 'b response settled \<Rightarrow> 'v app_state \<Rightarrow> 'v app_state \<times> effect list"
where
  "sendCarNumber now fetched st =
     (if \<not> truthy (carNumber st)
      then (st, [Alert (ascii ''Error'') (ascii ''Please enter a car number'')])
      else
        let sent = [Fetch (message_request now (carNumber st))];
            caught = (st, sent @ [ConsoleError (ascii ''Error sending car number:''),
                                  Alert (ascii ''Error'')
                                    (ascii ''Failed to send car number. Please try again.'')])
        in case fetched of
             Rejected \<Rightarrow> caught  \<comment> \<open>\<^verbatim>\<open>await fetch(...)\<close> throws\<close>
           | Fulfilled response \<Rightarrow>
               if \<not> ok response then caught  \<comment> \<open>\<^verbatim>\<open>throw new Error(...)\<close>\<close>
               else (setCarNumber [] st,
                     sent @ [Alert (ascii ''Success'') (ascii ''Car number sent successfully'')]))"

subsection \<open>The event loop\<close>

text \<open>
  One event is one run of a handler, with what the outside world answered. An exception
  that leaves \<^verbatim>\<open>onmessage\<close> reaches the runtime before any setter was called: the state
  is the one before the event.
\<close>

datatype 'b event =
    Mount "js_string settled" "js_string settled"
  | Open
  | Message js_string
  | SocketError
  | Close
  | PickImage "js_string settled" "launch_result settled"
  | TakePhoto "js_string settled" "launch_result settled"
  | ChangeText js_string
  | UploadImage "'b response settled"
  | SendCarNumber date "'b response settled"

fun dispatch ::
  "(js_string \<Rightarrow> 'v option) \<Rightarrow> 'b event \<Rightarrow> 'v app_state \<Rightarrow> 'v app_state \<times> effect list"
where
  "dispatch JSON_parse (Mount camera media) st = (st, requestPermissions camera media)"
| "dispatch JSON_parse Open st = onopen st"
| "dispatch JSON_parse (Message event_data) st =
     (case onmessage JSON_parse event_data st of
        Inl e \<Rightarrow> (st, [Uncaught e])
      | Inr r \<Rightarrow> r)"
| "dispatch JSON_parse SocketError st = onerror st"
| "dispatch JSON_parse Close st = onclose st"
| "dispatch JSON_parse (PickImage permission launch) st = pickImage permission launch st"
| "dispatch JSON_parse (TakePhoto permission launch) st = takePhoto permission launch st"
| "dispatch JSON_parse (ChangeText text) st = (onChangeText text st, [])"
| "dispatch JSON_parse (UploadImage fetched) st = uploadImage fetched st"
| "dispatch JSON_parse (SendCarNumber now fetched) st = sendCarNumber now fetched st"

fun run ::
  "(js_string \<Rightarrow> 'v option) \<Rightarrow> 'b event list \<Rightarrow> 'v app_state \<Rightarrow> 'v app_state \<times> effect list"
where
  "run JSON_parse [] st = (st, [])"
| "run JSON_parse (ev # evs) st =
     (case dispatch JSON_parse ev st of
        (st', fx) \<Rightarrow> (case run JSON_parse evs st' of (st'', fx') \<Rightarrow> (st'', fx @ fx')))"

text \<open>The entry that an event pushes into the feed, if any.\<close>

fun pushed :: "(js_string \<Rightarrow> 'v option) \<Rightarrow> 'b event \<Rightarrow> 'v option" where
  "pushed JSON_parse (Message event_data) = JSON_parse event_data"
| "pushed JSON_parse _ = None"

text \<open>The requests among the effects.\<close>

fun requests :: "effect list \<Rightarrow> request list" where
  "requests [] = []"
| "requests (Fetch r # fx) = r # requests fx"
| "requests (_ # fx) = requests fx"

section \<open>Notions of the properties\<close>

text \<open>
  A response is a success when it arrived and its status is 2xx; otherwise the request
  ended in a transport error (network failure or a status outside 200..299).
\<close>

fun succeeded :: "'b response settled \<Rightarrow> bool" where
  "succeeded Rejected = False"
| "succeeded (Fulfilled response) = (200 \<le> status response \<and> status response \<le> 299)"

text \<open>
  An instant in ISO 8601 format, in UTC with milliseconds: a year of four digits (or a sign
  and six digits), then \<^verbatim>\<open>-MM-DDTHH:mm:ss.sssZ\<close> with each field a decimal numeral in its
  range.
\<close>

definition is_digit :: "16 word \<Rightarrow> bool" where
  "is_digit c = (48 \<le> unat c \<and> unat c \<le> 57)"

definition decimal :: "js_string \<Rightarrow> nat option" where
  "decimal s =
     (if s \<noteq> [] \<and> list_all is_digit s
      then Some (foldl (\<lambda>a c. 10 * a + (unat c - 48)) 0 s) else None)"

definition field :: "nat \<Rightarrow> nat \<Rightarrow> js_string \<Rightarrow> bool" where
  "field lo hi s = (case decimal s of None \<Rightarrow> False | Some n \<Rightarrow> lo \<le> n \<and> n \<le> hi)"

definition iso8601_tail :: "js_string \<Rightarrow> bool" where
  "iso8601_tail s =
     (length s = 20
      \<and> take 1 s = ascii ''-'' \<and> field 1 12 (take 2 (drop 1 s))
      \<and> take 1 (drop 3 s) = ascii ''-'' \<and> field 1 31 (take 2 (drop 4 s))
      \<and> take 1 (drop 6 s) = ascii ''T'' \<and> field 0 23 (take 2 (drop 7 s))
      \<and> take 1 (drop 9 s) = ascii '':'' \<and> field 0 59 (take 2 (drop 10 s))
      \<and> take 1 (drop 12 s) = ascii '':'' \<and> field 0 59 (take 2 (drop 13 s))
      \<and> take 1 (drop 15 s) = ascii ''.'' \<and> field 0 999 (take 3 (drop 16 s))
      \<and> drop 19 s = ascii ''Z'')"

definition iso8601 :: "js_string \<Rightarrow> bool" where
  "iso8601 s =
     (if take 1 s = ascii ''+'' \<or> take 1 s = ascii ''-''
      then decimal (take 6 (drop 1 s)) \<noteq> None \<and> iso8601_tail (drop 7 s)
      else decimal (take 4 s) \<noteq> None \<and> iso8601_tail (drop 4 s))"

text \<open>The fields of a \<^verbatim>\<open>Date\<close> are in their ranges.\<close>

definition valid_date :: "date \<Rightarrow> bool" where
  "valid_date d =
     (- 271821 \<le> year d \<and> year d \<le> 275760
      \<and> 1 \<le> month d \<and> month d \<le> 12 \<and> 1 \<le> day d \<and> day d \<le> 31
      \<and> hours d < 24 \<and> minutes d < 60 \<and> seconds d < 60 \<and> milliseconds d < 1000)"

section \<open>Sample data\<close>

text \<open>
  Two frames of the push channel, the first carrying the later timestamp, with the objects
  that \<^verbatim>\<open>JSON.parse\<close> returns for them (as lists of their string fields). \<open>sample_parse\<close>
  agrees with \<^verbatim>\<open>JSON.parse\<close> on these two frames and on the text \<^verbatim>\<open>not json\<close>, the only
  inputs it is applied to below.
\<close>

definition frame_late :: js_string where
  \<open>frame_late = ascii ''{"message":"late","timestamp":"2024-01-02T00:00:00Z"}''\<close>

definition frame_early :: js_string where
  \<open>frame_early = ascii ''{"message":"early","timestamp":"2024-01-01T00:00:00Z"}''\<close>

definition entry_late :: "(js_string \<times> js_string) list" where
  "entry_late =
     [(ascii ''message'', ascii ''late''), (ascii ''timestamp'', ascii ''2024-01-02T00:00:00Z'')]"

definition entry_early :: "(js_string \<times> js_string) list" where
  "entry_early =
     [(ascii ''message'', ascii ''early''), (ascii ''timestamp'', ascii ''2024-01-01T00:00:00Z'')]"

definition sample_parse :: "js_string \<Rightarrow> (js_string \<times> js_string) list option" where
  "sample_parse s =
     (if s = frame_late then Some entry_late
      else if s = frame_early then Some entry_early
      else None)"

text \<open>A reading of the clock.\<close>

definition sample_now :: date where
  "sample_now =
     \<lparr>year = 2024, month = 1, day = 1, hours = 0, minutes = 0, seconds = 0, milliseconds = 0\<rparr>"

section \<open>Basic facts\<close>

lemma slice_0_8: "slice_js 0 8 s = take 8 s"
  by (cases "length s \<le> 8") (auto simp: slice_js_def Let_def min_def)

lemma ascii_Nil: "ascii [] = []"
  by (simp add: ascii_def)

lemma ascii_Cons: "ascii (c # s) = word_of_nat (of_char c) # ascii s"
  by (simp add: ascii_def)

text \<open>ASCII literals denote distinct strings: a byte fits a code unit.\<close>

lemma code_unit_of_char_less: "of_char c < (2::nat) ^ LENGTH(16)"
proof -
  have "of_char c < (256::nat)" by simp
  also have "(256::nat) < 2 ^ LENGTH(16)" by simp
  finally show ?thesis .
qed

lemma word_of_char_inj:
  "((word_of_nat (of_char c) :: 16 word) = word_of_nat (of_char d)) = (c = d)"
proof -
  have "take_bit LENGTH(16) (of_char c :: nat) = of_char c" for c
    by (rule take_bit_nat_eq_self) (rule code_unit_of_char_less)
  then show ?thesis
    by (simp only: word_of_nat_eq_iff of_char_eq_iff)
qed

lemma ascii_inj [simp]: "(ascii s = ascii t) = (s = t)"
proof (induction s arbitrary: t)
  case Nil
  then show ?case by (cases t) (simp_all add: ascii_def)
next
  case (Cons c s)
  show ?case
  proof (cases t)
    case Nil
    then show ?thesis by (simp add: ascii_def)
  next
    case (Cons d t')
    have "(ascii (c # s) = ascii (d # t')) = (c = d \<and> ascii s = ascii t')"
      by (simp only: ascii_Cons list.inject word_of_char_inj)
    with Cons.IH Cons show ?thesis by simp
  qed
qed

text \<open>\<^verbatim>\<open>toISOString\<close> of a date with its fields in range is an ISO 8601 instant.\<close>

lemma length_pad [simp]: "length (pad k n) = k"
  by (induction k arbitrary: n) simp_all

lemma unat_digit: "unat (digit n) = 48 + n mod 10"
proof -
  have "n mod 10 < 10" by simp
  then have b: "48 + n mod 10 < 2 ^ LENGTH(16)" by simp
  have "unat (digit n) = (48 + n mod 10) mod 2 ^ LENGTH(16)"
    unfolding digit_def by (rule unat_of_nat)
  also have "\<dots> = 48 + n mod 10"
    using b by (rule mod_less)
  finally show ?thesis .
qed

lemma is_digit_digit [simp]: "is_digit (digit n)"
  by (simp add: is_digit_def unat_digit)

lemma list_all_pad [simp]: "list_all is_digit (pad k n)"
  by (induction k arbitrary: n) simp_all

lemma foldl_pad:
  "foldl (\<lambda>a c. 10 * a + (unat c - 48)) 0 (pad k n) = n mod 10 ^ k"
proof (induction k arbitrary: n)
  case 0
  then show ?case by simp
next
  case (Suc k)
  have "n mod (10 * 10 ^ k) = 10 * (n div 10 mod 10 ^ k) + n mod 10"
    by (metis mod_mult2_eq add.commute mult.commute)
  then show ?case
    by (simp add: Suc unat_digit)
qed

lemma pad_not_Nil: "0 < k \<Longrightarrow> pad k n \<noteq> []"
  by (cases k) simp_all

lemma decimal_pad: "0 < k \<Longrightarrow> n < 10 ^ k \<Longrightarrow> decimal (pad k n) = Some n"
  by (simp add: decimal_def foldl_pad pad_not_Nil)

lemma decimal_pad_Some: "0 < k \<Longrightarrow> decimal (pad k n) \<noteq> None"
  by (simp add: decimal_def pad_not_Nil)

lemma field_pad: "0 < k \<Longrightarrow> n < 10 ^ k \<Longrightarrow> lo \<le> n \<Longrightarrow> n \<le> hi \<Longrightarrow> field lo hi (pad k n)"
  by (simp add: field_def decimal_pad)

lemma take_1_pad: "0 < k \<Longrightarrow> \<exists>c. is_digit c \<and> take 1 (pad k n @ s) = [c]"
  using list_all_pad [of k n] pad_not_Nil [of k n]
  by (cases "pad k n") simp_all

lemma sign_not_digit: "\<not> is_digit 43" "\<not> is_digit 45"
  by (simp_all add: is_digit_def)

lemma ascii_sign: "ascii ''+'' = [43]" "ascii ''-'' = [45]" "ascii ''T'' = [84]"
  "ascii '':'' = [58]" "ascii ''.'' = [46]" "ascii ''Z'' = [90]"
  by (simp_all add: ascii_def)

lemma iso8601_tail_toISOString:
  assumes "1 \<le> mo" "mo \<le> 12" "1 \<le> da" "da \<le> 31" "h < 24" "mi < 60" "se < 60" "ms < 1000"
  shows "iso8601_tail (ascii ''-'' @ pad 2 mo @ ascii ''-'' @ pad 2 da
     @ ascii ''T'' @ pad 2 h @ ascii '':'' @ pad 2 mi
     @ ascii '':'' @ pad 2 se @ ascii ''.'' @ pad 3 ms @ ascii ''Z'')"
  using assms
  by (simp add: iso8601_tail_def ascii_sign field_pad)

lemma toISOString_iso8601: "valid_date d \<Longrightarrow> iso8601 (toISOString d)"
proof -
  assume v: "valid_date d"
  let ?tail = "ascii ''-'' @ pad 2 (month d) @ ascii ''-'' @ pad 2 (day d)
     @ ascii ''T'' @ pad 2 (hours d) @ ascii '':'' @ pad 2 (minutes d)
     @ ascii '':'' @ pad 2 (seconds d) @ ascii ''.'' @ pad 3 (milliseconds d) @ ascii ''Z''"
  have t: "iso8601_tail ?tail"
    using v by (intro iso8601_tail_toISOString) (simp_all add: valid_date_def)
  show ?thesis
  proof (cases "0 \<le> year d \<and> year d \<le> 9999")
    case True
    have "toISOString d = pad 4 (nat (year d)) @ ?tail"
      using True by (simp add: toISOString_def)
    moreover have "take 1 (pad 4 (nat (year d)) @ ?tail) \<noteq> [43]"
      "take 1 (pad 4 (nat (year d)) @ ?tail) \<noteq> [45]"
      using take_1_pad [of 4 "nat (year d)" ?tail] sign_not_digit
      by (auto simp del: take_append)
    ultimately show ?thesis
      using t by (simp add: iso8601_def ascii_sign(1,2) decimal_pad_Some)
  next
    case False
    then have "toISOString d = (if year d < 0 then [45] else [43]) @ pad 6 (nat \<bar>year d\<bar>) @ ?tail"
      by (simp add: toISOString_def ascii_sign(1,2))
    then show ?thesis
      using t by (simp add: iso8601_def ascii_sign(1,2) decimal_pad_Some)
  qed
qed

lemma pad_numeral: "pad (numeral k) n = pad (pred_numeral k) (n div 10) @ [digit n]"
proof -
  have "pad (Suc (pred_numeral k)) n = pad (pred_numeral k) (n div 10) @ [digit n]"
    by (rule pad.simps(2))
  then show ?thesis
    by (simp only: numeral_eq_Suc [of k])
qed

lemma toISOString_sample_now: "toISOString sample_now = ascii ''2024-01-01T00:00:00.000Z''"
  by (simp add: toISOString_def sample_now_def ascii_def digit_def pad_numeral)

lemma valid_sample_now: "valid_date sample_now"
  by (simp add: valid_date_def sample_now_def)

text \<open>The sample parser on the sample frames.\<close>

lemma sample_parse_late: "sample_parse frame_late = Some entry_late"
  by (simp add: sample_parse_def)

lemma sample_parse_early: "sample_parse frame_early = Some entry_early"
  by (simp add: sample_parse_def frame_late_def frame_early_def)

lemma sample_parse_garbage: "sample_parse (ascii ''not json'') = None"
  by (simp add: sample_parse_def frame_late_def frame_early_def)

text \<open>The feed after a handler, after an event and after a sequence of events.\<close>

lemma onmessage_Some:
  "JSON_parse event_data = Some entry \<Longrightarrow>
     onmessage JSON_parse event_data st = Inr (st\<lparr>messages := messages st @ [entry]\<rparr>, [])"
  by (simp add: onmessage_def setMessages_def)

lemma onmessage_None:
  "JSON_parse event_data = None \<Longrightarrow> onmessage JSON_parse event_data st = Inl SyntaxError"
  by (simp add: onmessage_def)

lemma messages_pickImage: "messages (fst (pickImage permission launch st)) = messages st"
  by (simp add: pickImage_def setImage_def Let_def split: settled.splits list.splits)

lemma messages_takePhoto: "messages (fst (takePhoto permission launch st)) = messages st"
  by (simp add: takePhoto_def setImage_def Let_def split: settled.splits list.splits)

lemma messages_uploadImage: "messages (fst (uploadImage fetched st)) = messages st"
  by (simp add: uploadImage_def setImage_def Let_def split: option.splits settled.splits)

lemma messages_sendCarNumber: "messages (fst (sendCarNumber now fetched st)) = messages st"
  by (simp add: sendCarNumber_def setCarNumber_def Let_def split: settled.splits)

lemma messages_dispatch:
  "messages (fst (dispatch JSON_parse ev st)) =
     messages st @ (case pushed JSON_parse ev of None \<Rightarrow> [] | Some entry \<Rightarrow> [entry])"
proof (cases ev)
  case (Message event_data)
  then show ?thesis
    by (cases "JSON_parse event_data") (simp_all add: onmessage_def setMessages_def)
qed (simp_all add: onopen_def onerror_def onclose_def onChangeText_def setCarNumber_def
       messages_pickImage messages_takePhoto messages_uploadImage messages_sendCarNumber)

lemma messages_run:
  "messages (fst (run JSON_parse evs st)) = messages st @ List.map_filter (pushed JSON_parse) evs"
proof (induction evs arbitrary: st)
  case Nil
  then show ?case by (simp add: List.map_filter_simps)
next
  case (Cons ev evs)
  obtain st' fx where d: "dispatch JSON_parse ev st = (st', fx)"
    by (cases "dispatch JSON_parse ev st")
  obtain st'' fx' where r: "run JSON_parse evs st' = (st'', fx')"
    by (cases "run JSON_parse evs st'")
  have "messages st' = messages st @ (case pushed JSON_parse ev of None \<Rightarrow> [] | Some entry \<Rightarrow> [entry])"
    using messages_dispatch [of JSON_parse ev st] d by simp
  moreover have "messages st'' = messages st' @ List.map_filter (pushed JSON_parse) evs"
    using Cons.IH [of st'] r by simp
  ultimately show ?case
    using d r by (simp add: List.map_filter_simps split: option.splits)
qed

lemma pushed_frames:
  "List.map_filter (pushed JSON_parse) (map Message frames) = List.map_filter JSON_parse frames"
  by (induction frames) (simp_all add: List.map_filter_simps split: option.splits)

lemma map_filter_all_Some:
  "map f xs = map Some ys \<Longrightarrow> List.map_filter f xs = ys"
proof (induction xs arbitrary: ys)
  case Nil
  then show ?case by (simp add: List.map_filter_simps)
next
  case (Cons x xs)
  then obtain y ys' where "ys = y # ys'" "f x = Some y" "map f xs = map Some ys'"
    by (cases ys) auto
  with Cons.IH [of ys'] show ?case by (simp add: List.map_filter_simps)
qed

section \<open>The feed\<close>

text \<open>
  C1: a frame that decodes to an entry makes the message handler append exactly that
  entry at the end of the feed; frames that decode to the entries \<open>entries\<close>, delivered in
  this order, leave the feed extended by \<open>entries\<close> in this order, whatever the entries
  contain (their timestamps are never read); in general the feed is extended by the decoded
  values of the frames that decode, in the order of arrival; and after any event or
  sequence of events the earlier feed is a prefix of the feed: no entry is changed or
  removed.
\<close>

theorem feed_arrival_order:
  fixes JSON_parse :: "js_string \<Rightarrow> 'v option" and ev :: "'b event" and evs :: "'b event list"
  shows
  "(JSON_parse event_data = Some entry \<longrightarrow>
      onmessage JSON_parse event_data st = Inr (st\<lparr>messages := messages st @ [entry]\<rparr>, []))
   \<and> (map JSON_parse frames = map Some entries \<longrightarrow>
        messages (fst (run JSON_parse (map Message frames :: 'b event list) st))
          = messages st @ entries)
   \<and> messages (fst (run JSON_parse (map Message frames :: 'b event list) st))
       = messages st @ List.map_filter JSON_parse frames
   \<and> prefix (messages st) (messages (fst (dispatch JSON_parse ev st)))
   \<and> prefix (messages st) (messages (fst (run JSON_parse evs st)))"
proof (intro conjI impI)
  assume "JSON_parse event_data = Some entry"
  then show "onmessage JSON_parse event_data st = Inr (st\<lparr>messages := messages st @ [entry]\<rparr>, [])"
    by (rule onmessage_Some)
next
  assume "map JSON_parse frames = map Some entries"
  then show "messages (fst (run JSON_parse (map Message frames :: 'b event list) st))
      = messages st @ entries"
    by (simp add: messages_run pushed_frames map_filter_all_Some)
next
  show "messages (fst (run JSON_parse (map Message frames :: 'b event list) st))
      = messages st @ List.map_filter JSON_parse frames"
    by (simp add: messages_run pushed_frames)
next
  show "prefix (messages st) (messages (fst (dispatch JSON_parse ev st)))"
    by (simp add: messages_dispatch)
next
  show "prefix (messages st) (messages (fst (run JSON_parse evs st)))"
    by (simp add: messages_run)
qed

text \<open>The frame with the later timestamp arrives first and stays first.\<close>

theorem feed_arrival_order_witness:
  "sample_parse frame_late = Some entry_late
   \<and> map sample_parse [frame_late, frame_early] = map Some [entry_late, entry_early]
   \<and> onmessage sample_parse frame_late initial = Inr (initial\<lparr>messages := [entry_late]\<rparr>, [])
   \<and> messages (fst (run sample_parse (map Message [frame_late, frame_early] :: unit event list)
         initial))
       = [entry_late, entry_early]
   \<and> prefix [entry_late]
        (messages (fst (dispatch sample_parse (UploadImage Rejected :: unit event)
           (initial\<lparr>messages := [entry_late]\<rparr>))))
   \<and> prefix [entry_late]
        (messages (fst (run sample_parse
           [Message frame_early, ChangeText (ascii ''AB''), Close :: unit event]
           (initial\<lparr>messages := [entry_late]\<rparr>))))"
  using feed_arrival_order [of sample_parse frame_late entry_late initial
      "[frame_late, frame_early]" "[entry_late, entry_early]" "UploadImage Rejected :: unit event"
      "[Message frame_early, ChangeText (ascii ''AB''), Close]"]
    feed_arrival_order [of sample_parse frame_late entry_late "initial\<lparr>messages := [entry_late]\<rparr>"
      "[frame_late, frame_early]" "[entry_late, entry_early]" "UploadImage Rejected :: unit event"
      "[Message frame_early, ChangeText (ascii ''AB''), Close]"]
  by (simp add: sample_parse_late sample_parse_early initial_def
        del: run.simps dispatch.simps)

text \<open>
  C2: for a frame that \<^verbatim>\<open>JSON.parse\<close> rejects, the message handler performs no effect of
  its own (no alert, no log) and the \<^verbatim>\<open>SyntaxError\<close> leaves the handler; the state is the
  one before the frame.
\<close>

theorem onmessage_undecodable_throws:
  fixes JSON_parse :: "js_string \<Rightarrow> 'v option"
  assumes "JSON_parse event_data = None"
  shows "onmessage JSON_parse event_data st = Inl SyntaxError
       \<and> dispatch JSON_parse (Message event_data :: 'b event) st = (st, [Uncaught SyntaxError])"
  using assms by (simp add: onmessage_def)

theorem onmessage_undecodable_throws_witness:
  "sample_parse (ascii ''not json'') = None
   \<and> onmessage sample_parse (ascii ''not json'') initial = Inl SyntaxError
   \<and> dispatch sample_parse (Message (ascii ''not json'') :: unit event) initial
       = (initial, [Uncaught SyntaxError])"
  using onmessage_undecodable_throws [of sample_parse "ascii ''not json''" initial,
      where ?'b = unit]
  by (simp add: sample_parse_garbage del: dispatch.simps)

text \<open>
  C9: neither \<^verbatim>\<open>uploadImage\<close> nor \<^verbatim>\<open>sendCarNumber\<close> changes the feed, whatever the
  outcome of the request; after any sequence of events the feed is the earlier feed followed
  by the decoded frames of the sequence, in order; and the entries of a feed that started
  empty are exactly the entries decoded from the frames received.
\<close>

theorem feed_only_from_push:
  fixes JSON_parse :: "js_string \<Rightarrow> 'v option" and evs :: "'b event list"
    and st :: "'v app_state"
  shows "messages (fst (uploadImage fetched st)) = messages st
       \<and> messages (fst (sendCarNumber now fetched' st)) = messages st
       \<and> messages (fst (run JSON_parse evs st))
           = messages st @ List.map_filter (pushed JSON_parse) evs
       \<and> pushed JSON_parse (UploadImage fetched'' :: 'b event) = None
       \<and> pushed JSON_parse (SendCarNumber now fetched'' :: 'b event) = None
       \<and> set (messages (fst (run JSON_parse evs initial)))
           = {entry. \<exists>event_data. Message event_data \<in> set evs
                \<and> JSON_parse event_data = Some entry}"
proof -
  have "set (List.map_filter (pushed JSON_parse) evs)
      = {entry. \<exists>event_data. Message event_data \<in> set evs \<and> JSON_parse event_data = Some entry}"
  proof (induction evs)
    case Nil
    then show ?case by (simp add: List.map_filter_simps)
  next
    case (Cons ev evs)
    then show ?case
      by (cases ev) (auto simp: List.map_filter_simps split: option.splits)
  qed
  then show ?thesis
    by (simp add: messages_uploadImage messages_sendCarNumber messages_run initial_def)
qed

theorem feed_only_from_push_witness:
  "messages (fst (run sample_parse
      [UploadImage (Fulfilled \<lparr>status = 200, json = Fulfilled ()\<rparr>),
       Message frame_late,
       ChangeText (ascii ''XYZ1''),
       SendCarNumber sample_now
         (Fulfilled \<lparr>status = 200, json = Fulfilled ()\<rparr>)]
      initial)) = [entry_late]"
  using feed_only_from_push
    [of "Rejected :: unit response settled" "initial :: (js_string \<times> js_string) list app_state"
        sample_now "Rejected :: unit response settled" sample_parse
        "[UploadImage (Fulfilled \<lparr>status = 200, json = Fulfilled ()\<rparr>),
          Message frame_late,
          ChangeText (ascii ''XYZ1''),
          SendCarNumber sample_now
            (Fulfilled \<lparr>status = 200, json = Fulfilled ()\<rparr>)]"]
  by (simp add: List.map_filter_simps sample_parse_late initial_def del: run.simps)

section \<open>Staging and submission\<close>

text \<open>
  C6: for every input string, the text-input handler stages the first 8 code units of the
  text; the staged identifier equals the text exactly when the text has at most 8 code
  units; and the text \<open>ABCDEFGHIJ\<close> is staged as \<open>ABCDEFGH\<close>.
\<close>

theorem stageIdentifier_truncates:
  "carNumber (onChangeText text st) = take 8 text
   \<and> (carNumber (onChangeText text st) = text) = (length text \<le> 8)
   \<and> carNumber (onChangeText (ascii ''ABCDEFGHIJ'') st) = ascii ''ABCDEFGH''"
proof -
  have a: "carNumber (onChangeText s st) = take 8 s" for s
    by (simp add: onChangeText_def setCarNumber_def slice_0_8)
  have b: "(take 8 text = text) = (length text \<le> 8)"
    by (metis take_all_iff)
  have c: "take 8 (ascii ''ABCDEFGHIJ'') = ascii ''ABCDEFGH''"
    by (simp add: ascii_Cons ascii_Nil)
  show ?thesis using a b c by simp
qed

text \<open>
  C5: \<^verbatim>\<open>uploadImage\<close> without a staged image (the cell is \<^verbatim>\<open>null\<close>, or an empty URI)
  shows the validation alert and does nothing else: no request is sent and the state is
  unchanged.
\<close>

theorem uploadImage_without_image:
  assumes "\<not> truthy_opt (image_uri st)"
  shows "uploadImage fetched st
           = (st, [Alert (ascii ''Error'') (ascii ''Please select an image first'')])
       \<and> requests (snd (uploadImage fetched st)) = []
       \<and> fst (uploadImage fetched st) = st"
  using assms by (cases "image_uri st") (simp_all add: uploadImage_def)

theorem uploadImage_without_image_witness:
  "\<not> truthy_opt (image_uri \<lparr>messages = [entry_late], carNumber = ascii ''CAR12345'',
        image_uri = None\<rparr>)
   \<and> uploadImage (Fulfilled \<lparr>status = 200, json = Fulfilled ()\<rparr>)
        \<lparr>messages = [entry_late], carNumber = ascii ''CAR12345'', image_uri = None\<rparr>
     = (\<lparr>messages = [entry_late], carNumber = ascii ''CAR12345'', image_uri = None\<rparr>,
        [Alert (ascii ''Error'') (ascii ''Please select an image first'')])
   \<and> requests (snd (uploadImage (Fulfilled \<lparr>status = 200, json = Fulfilled ()\<rparr>)
        \<lparr>messages = [entry_late], carNumber = ascii ''CAR12345'', image_uri = None\<rparr>)) = []"
  using uploadImage_without_image
    [of "\<lparr>messages = [entry_late], carNumber = ascii ''CAR12345'', image_uri = None\<rparr>"
        "Fulfilled \<lparr>status = 200, json = Fulfilled ()\<rparr>"]
  by simp

text \<open>
  C3: with an image staged, when the upload is answered by a 2xx response whose body
  decodes, the staged image is cleared, and the staged identifier and everything else in
  the state stay as they were.
\<close>

theorem uploadImage_ack_clears_image_only:
  assumes "image_uri st = Some uri" and "truthy uri"
    and "fetched = Fulfilled response"
    and "200 \<le> status response" and "status response \<le> 299"
    and "json response = Fulfilled data"
  shows "image_uri (fst (uploadImage fetched st)) = None
       \<and> carNumber (fst (uploadImage fetched st)) = carNumber st
       \<and> fst (uploadImage fetched st) = st\<lparr>image_uri := None\<rparr>"
  using assms by (simp add: uploadImage_def ok_def setImage_def Let_def)

theorem uploadImage_ack_clears_image_only_witness:
  "image_uri (fst (uploadImage
      (Fulfilled \<lparr>status = 200, json = Fulfilled ()\<rparr>)
      \<lparr>messages = [entry_late], carNumber = ascii ''CAR12345'',
       image_uri = Some (ascii ''file:///photo.jpg'')\<rparr>)) = None
   \<and> carNumber (fst (uploadImage
      (Fulfilled \<lparr>status = 200, json = Fulfilled ()\<rparr>)
      \<lparr>messages = [entry_late], carNumber = ascii ''CAR12345'',
       image_uri = Some (ascii ''file:///photo.jpg'')\<rparr>)) = ascii ''CAR12345''
   \<and> fst (uploadImage
      (Fulfilled \<lparr>status = 200, json = Fulfilled ()\<rparr>)
      \<lparr>messages = [entry_late], carNumber = ascii ''CAR12345'',
       image_uri = Some (ascii ''file:///photo.jpg'')\<rparr>)
     = \<lparr>messages = [entry_late], carNumber = ascii ''CAR12345'', image_uri = None\<rparr>"
  using uploadImage_ack_clears_image_only
    [of "\<lparr>messages = [entry_late], carNumber = ascii ''CAR12345'',
          image_uri = Some (ascii ''file:///photo.jpg'')\<rparr>"
        "ascii ''file:///photo.jpg''"
        "Fulfilled \<lparr>status = 200, json = Fulfilled ()\<rparr>"
        "\<lparr>status = 200, json = Fulfilled ()\<rparr>" "()"]
  by (simp add: truthy_def ascii_Cons)

text \<open>
  C10: with an image staged, the one request sent by \<^verbatim>\<open>uploadImage\<close> carries the form
  whose \<^verbatim>\<open>car_number\<close> field is present exactly when the staged identifier is not empty;
  with an empty identifier the form is the \<^verbatim>\<open>file\<close> part alone.
\<close>

theorem uploadImage_car_number_field:
  assumes "image_uri st = Some uri" and "truthy uri"
  shows "map body (requests (snd (uploadImage fetched st)))
           = [FormData (formData uri (carNumber st))]
       \<and> (ascii ''car_number'' \<in> fst ` set (formData uri (carNumber st)))
           = (carNumber st \<noteq> [])
       \<and> formData uri [] = [(ascii ''file'', File uri (ascii ''image/jpeg'') (ascii ''photo.jpg''))]
       \<and> formData uri (carNumber st) =
           (ascii ''file'', File uri (ascii ''image/jpeg'') (ascii ''photo.jpg''))
           # (if carNumber st = [] then [] else [(ascii ''car_number'', Field (carNumber st))])"
proof -
  have "map body (requests (snd (uploadImage fetched st)))
           = [FormData (formData uri (carNumber st))]"
    using assms
    by (simp add: uploadImage_def upload_request_def Let_def
          split: settled.splits)
  then show ?thesis
    by (simp add: formData_def truthy_def)
qed

theorem uploadImage_car_number_field_witness:
  "map body (requests (snd (uploadImage (Rejected :: unit response settled)
      \<lparr>messages = [entry_late], carNumber = [],
       image_uri = Some (ascii ''file:///photo.jpg'')\<rparr>)))
     = [FormData [(ascii ''file'',
          File (ascii ''file:///photo.jpg'') (ascii ''image/jpeg'') (ascii ''photo.jpg''))]]
   \<and> map body (requests (snd (uploadImage (Rejected :: unit response settled)
      \<lparr>messages = [entry_late], carNumber = ascii ''CAR12345'',
       image_uri = Some (ascii ''file:///photo.jpg'')\<rparr>)))
     = [FormData [(ascii ''file'',
          File (ascii ''file:///photo.jpg'') (ascii ''image/jpeg'') (ascii ''photo.jpg'')),
         (ascii ''car_number'', Field (ascii ''CAR12345''))]]"
  using uploadImage_car_number_field
    [of "\<lparr>messages = [entry_late], carNumber = [],
          image_uri = Some (ascii ''file:///photo.jpg'')\<rparr>"
        "ascii ''file:///photo.jpg''" "Rejected :: unit response settled"]
    uploadImage_car_number_field
    [of "\<lparr>messages = [entry_late], carNumber = ascii ''CAR12345'',
          image_uri = Some (ascii ''file:///photo.jpg'')\<rparr>"
        "ascii ''file:///photo.jpg''" "Rejected :: unit response settled"]
  by (simp add: truthy_def ascii_Cons)

text \<open>
  C7: \<^verbatim>\<open>sendCarNumber\<close> with an empty staged identifier shows the validation alert, sends
  no request and leaves the state unchanged; with a non-empty one it sends the request, and
  the staged identifier is cleared exactly when a 2xx response arrives (the state is
  otherwise unchanged).
\<close>

theorem sendCarNumber_validation_and_clear:
  "(carNumber st = [] \<longrightarrow>
      sendCarNumber now fetched st
        = (st, [Alert (ascii ''Error'') (ascii ''Please enter a car number'')])
      \<and> requests (snd (sendCarNumber now fetched st)) = [])
   \<and> (carNumber st \<noteq> [] \<longrightarrow>
        requests (snd (sendCarNumber now fetched st)) = [message_request now (carNumber st)]
        \<and> (carNumber (fst (sendCarNumber now fetched st)) = []) = succeeded fetched
        \<and> fst (sendCarNumber now fetched st)
            = (if succeeded fetched then st\<lparr>carNumber := []\<rparr> else st))"
  by (cases fetched)
     (simp_all add: sendCarNumber_def truthy_def ok_def setCarNumber_def Let_def)

theorem sendCarNumber_validation_and_clear_witness:
  "sendCarNumber sample_now
      (Fulfilled \<lparr>status = 200, json = Rejected :: unit settled\<rparr>)
      \<lparr>messages = [entry_late], carNumber = [], image_uri = None\<rparr>
     = (\<lparr>messages = [entry_late], carNumber = [], image_uri = None\<rparr>,
        [Alert (ascii ''Error'') (ascii ''Please enter a car number'')])
   \<and> requests (snd (sendCarNumber sample_now
        (Fulfilled \<lparr>status = 201, json = Rejected :: unit settled\<rparr>)
        \<lparr>messages = [entry_late], carNumber = ascii ''XYZ1'', image_uri = None\<rparr>))
       = [message_request sample_now (ascii ''XYZ1'')]
   \<and> fst (sendCarNumber sample_now
        (Fulfilled \<lparr>status = 201, json = Rejected :: unit settled\<rparr>)
        \<lparr>messages = [entry_late], carNumber = ascii ''XYZ1'', image_uri = None\<rparr>)
       = \<lparr>messages = [entry_late], carNumber = [], image_uri = None\<rparr>
   \<and> fst (sendCarNumber sample_now
        (Fulfilled \<lparr>status = 404, json = Rejected :: unit settled\<rparr>)
        \<lparr>messages = [entry_late], carNumber = ascii ''XYZ1'', image_uri = None\<rparr>)
       = \<lparr>messages = [entry_late], carNumber = ascii ''XYZ1'', image_uri = None\<rparr>"
  using sendCarNumber_validation_and_clear
    [of "\<lparr>messages = [entry_late], carNumber = [], image_uri = None\<rparr>"
        sample_now
        "Fulfilled \<lparr>status = 200, json = Rejected :: unit settled\<rparr>"]
    sendCarNumber_validation_and_clear
    [of "\<lparr>messages = [entry_late], carNumber = ascii ''XYZ1'', image_uri = None\<rparr>"
        sample_now
        "Fulfilled \<lparr>status = 201, json = Rejected :: unit settled\<rparr>"]
    sendCarNumber_validation_and_clear
    [of "\<lparr>messages = [entry_late], carNumber = ascii ''XYZ1'', image_uri = None\<rparr>"
        sample_now
        "Fulfilled \<lparr>status = 404, json = Rejected :: unit settled\<rparr>"]
  by (simp add: ascii_Cons)

text \<open>
  C4: with a non-empty staged identifier, when the request fails on the network or is
  answered by a status outside 200..299, the state after \<^verbatim>\<open>sendCarNumber\<close> is the state
  before it (the identifier stays staged), and the failure is shown in an alert.
\<close>

theorem sendCarNumber_transport_error_keeps_state:
  assumes "carNumber st \<noteq> []" and "\<not> succeeded fetched"
  shows "carNumber (fst (sendCarNumber now fetched st)) = carNumber st
       \<and> fst (sendCarNumber now fetched st) = st
       \<and> snd (sendCarNumber now fetched st) =
           [Fetch (message_request now (carNumber st)),
            ConsoleError (ascii ''Error sending car number:''),
            Alert (ascii ''Error'') (ascii ''Failed to send car number. Please try again.'')]"
  using assms
  by (cases fetched) (simp_all add: sendCarNumber_def truthy_def ok_def Let_def)

theorem sendCarNumber_transport_error_keeps_state_witness:
  "carNumber \<lparr>messages = [entry_late], carNumber = ascii ''XYZ1'',
       image_uri = Some (ascii ''file:///photo.jpg'')\<rparr> \<noteq> []
   \<and> \<not> succeeded (Fulfilled \<lparr>status = 500, json = Rejected :: unit settled\<rparr>)
   \<and> \<not> succeeded (Rejected :: unit response settled)
   \<and> fst (sendCarNumber sample_now
        (Fulfilled \<lparr>status = 500, json = Rejected :: unit settled\<rparr>)
        \<lparr>messages = [entry_late], carNumber = ascii ''XYZ1'',
         image_uri = Some (ascii ''file:///photo.jpg'')\<rparr>)
     = \<lparr>messages = [entry_late], carNumber = ascii ''XYZ1'',
         image_uri = Some (ascii ''file:///photo.jpg'')\<rparr>
   \<and> fst (sendCarNumber sample_now
        (Rejected :: unit response settled)
        \<lparr>messages = [entry_late], carNumber = ascii ''XYZ1'',
         image_uri = Some (ascii ''file:///photo.jpg'')\<rparr>)
     = \<lparr>messages = [entry_late], carNumber = ascii ''XYZ1'',
         image_uri = Some (ascii ''file:///photo.jpg'')\<rparr>"
  using sendCarNumber_transport_error_keeps_state
    [of "\<lparr>messages = [entry_late], carNumber = ascii ''XYZ1'',
          image_uri = Some (ascii ''file:///photo.jpg'')\<rparr>"
        "Fulfilled \<lparr>status = 500, json = Rejected :: unit settled\<rparr>"
        sample_now]
    sendCarNumber_transport_error_keeps_state
    [of "\<lparr>messages = [entry_late], carNumber = ascii ''XYZ1'',
          image_uri = Some (ascii ''file:///photo.jpg'')\<rparr>"
        "Rejected :: unit response settled"
        sample_now]
  by (simp add: ascii_Cons)

text \<open>
  C8: for a non-empty staged identifier \<open>c\<close>, \<^verbatim>\<open>sendCarNumber\<close> sends one request, a JSON
  body with exactly the fields \<^verbatim>\<open>message\<close> (\<open>Car number submitted: \<close> followed by \<open>c\<close>),
  \<^verbatim>\<open>timestamp\<close> (the clock's reading as \<^verbatim>\<open>toISOString\<close> prints it, an ISO 8601 instant
  for every date with its fields in range) and \<^verbatim>\<open>car_number\<close> (\<open>c\<close>); the success alert is
  shown exactly when a 2xx response arrives, and then the identifier is cleared.
\<close>

theorem sendCarNumber_request:
  assumes "carNumber st = c" and "c \<noteq> []"
  shows "requests (snd (sendCarNumber now fetched st)) =
           [\<lparr>url = ascii ''http://192.168.1.108:8000/messages/'', http_method = ascii ''POST'',
             headers = [(ascii ''Content-Type'', ascii ''application/json'')],
             body = Json [(ascii ''message'', ascii ''Car number submitted: '' @ c),
                          (ascii ''timestamp'', toISOString now),
                          (ascii ''car_number'', c)]\<rparr>]
       \<and> (valid_date now \<longrightarrow> iso8601 (toISOString now))
       \<and> (Alert (ascii ''Success'') (ascii ''Car number sent successfully'')
            \<in> set (snd (sendCarNumber now fetched st))) = succeeded fetched
       \<and> (succeeded fetched \<longrightarrow>
            sendCarNumber now fetched st =
              (st\<lparr>carNumber := []\<rparr>,
               [Fetch (message_request now c),
                Alert (ascii ''Success'') (ascii ''Car number sent successfully'')]))"
proof -
  have u: "SERVER_URL @ ascii ''/messages/'' = ascii ''http://192.168.1.108:8000/messages/''"
    by (simp add: SERVER_URL_def ascii_def)
  have i: "valid_date now \<longrightarrow> iso8601 (toISOString now)"
    by (simp add: toISOString_iso8601)
  have r: "requests (snd (sendCarNumber now fetched st)) =
           [\<lparr>url = ascii ''http://192.168.1.108:8000/messages/'', http_method = ascii ''POST'',
             headers = [(ascii ''Content-Type'', ascii ''application/json'')],
             body = Json [(ascii ''message'', ascii ''Car number submitted: '' @ c),
                          (ascii ''timestamp'', toISOString now),
                          (ascii ''car_number'', c)]\<rparr>]"
    using assms
    by (cases fetched)
       (simp_all add: sendCarNumber_def message_request_def u truthy_def Let_def)
  have a: "(Alert (ascii ''Success'') (ascii ''Car number sent successfully'')
            \<in> set (snd (sendCarNumber now fetched st))) = succeeded fetched"
    using assms
    by (cases fetched)
       (simp_all add: sendCarNumber_def truthy_def ok_def Let_def)
  have k: "succeeded fetched \<longrightarrow>
            sendCarNumber now fetched st =
              (st\<lparr>carNumber := []\<rparr>,
               [Fetch (message_request now c),
                Alert (ascii ''Success'') (ascii ''Car number sent successfully'')])"
    using assms
    by (cases fetched)
       (simp_all add: sendCarNumber_def truthy_def ok_def setCarNumber_def Let_def)
  from r i a k show ?thesis by blast
qed

theorem sendCarNumber_request_witness:
  "requests (snd (sendCarNumber sample_now
      (Fulfilled \<lparr>status = 204, json = Rejected :: unit settled\<rparr>)
      \<lparr>messages = [entry_late], carNumber = ascii ''XYZ1'', image_uri = None\<rparr>)) =
     [\<lparr>url = ascii ''http://192.168.1.108:8000/messages/'', http_method = ascii ''POST'',
       headers = [(ascii ''Content-Type'', ascii ''application/json'')],
       body = Json [(ascii ''message'', ascii ''Car number submitted: XYZ1''),
                    (ascii ''timestamp'', ascii ''2024-01-01T00:00:00.000Z''),
                    (ascii ''car_number'', ascii ''XYZ1'')]\<rparr>]
   \<and> valid_date sample_now
   \<and> iso8601 (ascii ''2024-01-01T00:00:00.000Z'')
   \<and> succeeded (Fulfilled \<lparr>status = 204, json = Rejected :: unit settled\<rparr>)
   \<and> sendCarNumber sample_now
        (Fulfilled \<lparr>status = 204, json = Rejected :: unit settled\<rparr>)
        \<lparr>messages = [entry_late], carNumber = ascii ''XYZ1'', image_uri = None\<rparr>
     = (\<lparr>messages = [entry_late], carNumber = [], image_uri = None\<rparr>,
        [Fetch (message_request sample_now (ascii ''XYZ1'')),
         Alert (ascii ''Success'') (ascii ''Car number sent successfully'')])"
proof -
  have c: "carNumber \<lparr>messages = [entry_late], carNumber = ascii ''XYZ1'', image_uri = None\<rparr>
      = ascii ''XYZ1''"
    by simp
  have n: "ascii ''XYZ1'' \<noteq> []"
    by (simp add: ascii_Cons)
  have g: "succeeded (Fulfilled \<lparr>status = 204, json = Rejected :: unit settled\<rparr>)"
    by simp
  note t = sendCarNumber_request [OF c n, of sample_now
      "Fulfilled \<lparr>status = 204, json = Rejected :: unit settled\<rparr>"]
  from t g valid_sample_now show ?thesis
    by (simp add: toISOString_sample_now message_request_def SERVER_URL_def ascii_def)
qed

end
